theory Spec2Isabelle
  imports Main "HOL-Library.AList"
begin

section \<open>The Bedrock guardrail safety adapter\<close>

text \<open>
  A shallow embedding of \<^verbatim>\<open>BedrockSafetyAdapter\<close>
  (\<^verbatim>\<open>llama_stack/providers/adapters/safety/bedrock/bedrock.py\<close>): its
  \<^verbatim>\<open>initialize\<close> and \<^verbatim>\<open>run_shield\<close> methods, the Python values they
  inspect, the exceptions they raise and catch, and the calls they make on their collaborators
  (the logger, \<^verbatim>\<open>print\<close>, boto3), recorded in order as a list of events.
\<close>

subsection \<open>Python values\<close>

text \<open>
  The values a parsed service response and the \<^verbatim>\<open>params\<close> dictionary are made of.
  A dictionary is an association list with distinct keys, in insertion order, read by
  \<open>map_of\<close>. A key is a hashable scalar; Python compares \<^verbatim>\<open>True\<close> and
  \<^verbatim>\<open>1\<close> equal as keys, so a Boolean key is the integer it equals. Floating-point
  numbers are left out.
\<close>

datatype py_key = KNone | KInt int | KStr string

datatype py_value =
    PyNone
  | PyBool bool
  | PyInt int
  | PyStr string
  | PyList "py_value list"
  | PyDict "(py_key \<times> py_value) list"

type_synonym py_dict = "(py_key \<times> py_value) list"

text \<open>
  The exceptions: the ones the adapter raises itself, the ones Python raises on an ill-typed
  operation, \<open>ClientError\<close> for the errors of boto3 (a missing profile, a refused or failed
  request), and the three classes that derive from \<^verbatim>\<open>BaseException\<close> without
  deriving from \<^verbatim>\<open>Exception\<close>, which can arrive while a call on boto3 is under way:
  an interrupt of the process, an exit, the cancellation of the task. A \<open>RuntimeError\<close>
  carries the literal text of its message (the formatted value that follows it in the source is
  not rendered) and the exception it was raised \<^verbatim>\<open>from\<close>.
\<close>

datatype py_exc =
    RuntimeError string "py_exc option"
  | TypeError
  | KeyError string
  | ValueError
  | AttributeError string
  | ClientError string
  | KeyboardInterrupt
  | SystemExit
  | CancelledError

text \<open>
  \<^verbatim>\<open>isinstance(e, Exception)\<close>: what an \<^verbatim>\<open>except Exception\<close> clause catches.
\<close>

fun is_Exception :: "py_exc \<Rightarrow> bool" where
  "is_Exception KeyboardInterrupt = False"
| "is_Exception SystemExit = False"
| "is_Exception CancelledError = False"
| "is_Exception _ = True"

text \<open>\<^verbatim>\<open>v[k]\<close> for a string \<open>k\<close>: only a dictionary can be read by a string key.\<close>

fun subscript :: "py_value \<Rightarrow> string \<Rightarrow> py_exc + py_value" where
  "subscript (PyDict d) k =
     (case map_of d (KStr k) of None \<Rightarrow> Inl (KeyError k) | Some v \<Rightarrow> Inr v)"
| "subscript _ k = Inl TypeError"

fun value_of_key :: "py_key \<Rightarrow> py_value" where
  "value_of_key KNone = PyNone"
| "value_of_key (KInt i) = PyInt i"
| "value_of_key (KStr s) = PyStr s"

text \<open>
  \<^verbatim>\<open>for x in v\<close>: the elements of a list, the keys of a dictionary, the characters of a
  string; anything else is not iterable.
\<close>

fun py_iter :: "py_value \<Rightarrow> py_exc + py_value list" where
  "py_iter (PyList xs) = Inr xs"
| "py_iter (PyDict d) = Inr (map (value_of_key \<circ> fst) d)"
| "py_iter (PyStr s) = Inr (map (\<lambda>c. PyStr [c]) s)"
| "py_iter _ = Inl TypeError"

text \<open>The key a value hashes to; lists and dictionaries are unhashable.\<close>

fun py_hash :: "py_value \<Rightarrow> py_exc + py_key" where
  "py_hash PyNone = Inr KNone"
| "py_hash (PyBool b) = Inr (KInt (if b then 1 else 0))"
| "py_hash (PyInt i) = Inr (KInt i)"
| "py_hash (PyStr s) = Inr (KStr s)"
| "py_hash _ = Inl TypeError"

text \<open>
  \<^verbatim>\<open>dict(v)\<close>: a dictionary is copied; any other iterable is read as a sequence of
  key-value pairs, each of them an iterable of exactly two elements, a later pair overwriting an
  earlier one with the same key.
\<close>

fun py_pair :: "py_value \<Rightarrow> py_exc + (py_key \<times> py_value)" where
  "py_pair (PyList [k, v]) = (case py_hash k of Inl e \<Rightarrow> Inl e | Inr h \<Rightarrow> Inr (h, v))"
| "py_pair (PyList _) = Inl ValueError"
| "py_pair (PyStr [a, b]) = Inr (KStr [a], PyStr [b])"
| "py_pair (PyStr _) = Inl ValueError"
| "py_pair (PyDict [(k1, _), (k2, _)]) = Inr (k1, value_of_key k2)"
| "py_pair (PyDict _) = Inl ValueError"
| "py_pair _ = Inl TypeError"

fun dict_update_seq :: "py_dict \<Rightarrow> py_value list \<Rightarrow> py_exc + py_dict" where
  "dict_update_seq d [] = Inr d"
| "dict_update_seq d (x # xs) =
     (case py_pair x of
        Inl e \<Rightarrow> Inl e
      | Inr (k, v) \<Rightarrow> dict_update_seq (AList.update k v d) xs)"

fun dict :: "py_value \<Rightarrow> py_exc + py_dict" where
  "dict (PyDict d) = Inr d"
| "dict (PyList xs) = dict_update_seq [] xs"
| "dict (PyStr s) = dict_update_seq [] (map (\<lambda>c. PyStr [c]) s)"
| "dict _ = Inl TypeError"

subsection \<open>The data of the adapter\<close>

text \<open>
  Modelled from the spec: the class \<^verbatim>\<open>Message\<close> is imported by the source file and
  declared elsewhere. The spec gives it a role (system, user or assistant) and a text content.
\<close>

datatype Role = system | user | assistant

record Message =
  role :: Role
  content :: string

text \<open>
  Modelled from the spec: the classes \<^verbatim>\<open>ViolationLevel\<close> and
  \<^verbatim>\<open>SafetyViolation\<close> are imported by the source file and declared elsewhere. The
  spec gives a violation a message, a level taken from an enumeration, and a metadata mapping.
  Of the levels the spec names only \<open>ERROR\<close>; the two others stand for the severities the
  adapter never uses. The record keeps the three keyword arguments as the source passes them.
\<close>

datatype ViolationLevel = INFO | WARN | ERROR

record SafetyViolation =
  user_message :: py_value
  violation_level :: ViolationLevel
  metadata :: py_dict

text \<open>
  Modelled from the spec: the class \<^verbatim>\<open>BedrockSafetyConfig\<close> is imported by the
  source file and declared elsewhere. It names the profile, or none.
\<close>

record BedrockSafetyConfig =
  aws_profile :: "string option"

text \<open>The keyword arguments of one \<^verbatim>\<open>apply_guardrail\<close> call.\<close>

record apply_guardrail_args =
  guardrailIdentifier :: py_value
  guardrailVersion :: py_value
  source :: string
  content :: "py_value list"

text \<open>
  The client handle is what its \<^verbatim>\<open>apply_guardrail\<close> method does with the arguments:
  it returns the parsed response or raises. boto3 is the two calls \<^verbatim>\<open>initialize\<close>
  makes on it: \<^verbatim>\<open>boto3.Session(profile_name=p)\<close> and \<^verbatim>\<open>session.client(name)\<close>.
\<close>

type_synonym guardrail_client = "apply_guardrail_args \<Rightarrow> py_exc + py_value"

record 's boto3 =
  Session :: "string \<Rightarrow> py_exc + 's"
  client :: "'s \<Rightarrow> string \<Rightarrow> py_exc + guardrail_client"

text \<open>
  The adapter object: \<^verbatim>\<open>config\<close> is set by the constructor; the other two attributes
  do not exist (\<open>None\<close>) until \<^verbatim>\<open>initialize\<close> assigns them.
\<close>

record BedrockSafetyAdapter =
  config :: BedrockSafetyConfig
  boto_client_profile :: "string option"
  boto_client :: "guardrail_client option"

definition init :: "BedrockSafetyConfig \<Rightarrow> BedrockSafetyAdapter" where
  "init cfg = \<lparr>config = cfg, boto_client_profile = None, boto_client = None\<rparr>"

text \<open>
  What the adapter does to the outside, in order: calls of the logger (the message text is not
  modelled; an error entry carries the exception whose traceback it formats), the
  \<^verbatim>\<open>print\<close> of \<^verbatim>\<open>initialize\<close>, and the calls on boto3 and on the client.
\<close>

datatype event =
    Log_debug
  | Log_error py_exc
  | Print
  | Session_call string
  | Client_call string
  | Apply_guardrail_call apply_guardrail_args

fun remote_calls :: "event list \<Rightarrow> apply_guardrail_args list" where
  "remote_calls [] = []"
| "remote_calls (Apply_guardrail_call a # es) = a # remote_calls es"
| "remote_calls (_ # es) = remote_calls es"

fun logged_errors :: "event list \<Rightarrow> py_exc list" where
  "logged_errors [] = []"
| "logged_errors (Log_error e # es) = e # logged_errors es"
| "logged_errors (_ # es) = logged_errors es"

subsection \<open>\<^verbatim>\<open>initialize\<close>\<close>

text \<open>
  The result is what the caller sees (\<open>Inl\<close>: the exception raised to it), the adapter
  after the call, and the events of the call. \<^verbatim>\<open>not self.config.aws_profile\<close> holds
  for \<^verbatim>\<open>None\<close> and for the empty string. The handler of the \<^verbatim>\<open>try\<close>
  statement is \<^verbatim>\<open>except Exception as e\<close>: it wraps what it catches in a
  \<^verbatim>\<open>RuntimeError\<close> raised from it, and what it does not catch goes to the caller as
  it is.
\<close>

definition initialize_handler :: "py_exc \<Rightarrow> py_exc" where
  "initialize_handler e =
     (if is_Exception e
      then RuntimeError ''Error initializing BedrockSafetyAdapter: '' (Some e)
      else e)"

definition initialize ::
  "'s boto3 \<Rightarrow> BedrockSafetyAdapter \<Rightarrow> (py_exc + unit) \<times> BedrockSafetyAdapter \<times> event list"
where
  "initialize boto3 self =
     (case aws_profile (config self) of
        None \<Rightarrow>
          (Inl (RuntimeError ''Missing boto_client aws_profile in model info::'' None), self, [])
      | Some p \<Rightarrow>
          if p = [] then
            (Inl (RuntimeError ''Missing boto_client aws_profile in model info::'' None), self, [])
          else
            let self1 = self\<lparr>boto_client_profile := Some p\<rparr> in
            (case Session boto3 p of
               Inl e \<Rightarrow> (Inl (initialize_handler e), self1, [Print, Session_call p])
             | Inr s \<Rightarrow>
                 (case client boto3 s ''bedrock-runtime'' of
                    Inl e \<Rightarrow>
                      (Inl (initialize_handler e), self1,
                       [Print, Session_call p, Client_call ''bedrock-runtime''])
                  | Inr c \<Rightarrow>
                      (Inr (), self1\<lparr>boto_client := Some c\<rparr>,
                       [Print, Session_call p, Client_call ''bedrock-runtime'']))))"

subsection \<open>\<^verbatim>\<open>run_shield\<close>\<close>

text \<open>The content block \<^verbatim>\<open>{"text": {"text": c}}\<close> of a message content \<open>c\<close>.\<close>

definition content_block :: "string \<Rightarrow> py_value" where
  "content_block c = PyDict [(KStr ''text'', PyDict [(KStr ''text'', PyStr c)])]"

text \<open>The loop that appends one block per message to \<^verbatim>\<open>content_messages\<close>.\<close>

fun content_messages_loop :: "py_value list \<Rightarrow> Message list \<Rightarrow> py_value list" where
  "content_messages_loop content_messages [] = content_messages"
| "content_messages_loop content_messages (message # rest) =
     content_messages_loop (content_messages @ [content_block (Message.content message)]) rest"

text \<open>\<^verbatim>\<open>k in params\<close> and \<^verbatim>\<open>params.get(k)\<close> on a dictionary.\<close>

definition py_in :: "string \<Rightarrow> py_dict \<Rightarrow> bool" where
  "py_in k d = (map_of d (KStr k) \<noteq> None)"

definition py_get :: "py_dict \<Rightarrow> string \<Rightarrow> py_value" where
  "py_get d k = (case map_of d (KStr k) of None \<Rightarrow> PyNone | Some v \<Rightarrow> v)"

text \<open>
  The two loops over the response: each pass overwrites the variable, and a pass that raises
  ends the loop with the exception.
\<close>

fun outputs_loop :: "py_value \<Rightarrow> py_value list \<Rightarrow> py_exc + py_value" where
  "outputs_loop message [] = Inr message"
| "outputs_loop message (output # rest) =
     (case subscript output ''text'' of
        Inl e \<Rightarrow> Inl e
      | Inr t \<Rightarrow> outputs_loop t rest)"

fun assessments_loop :: "py_dict \<Rightarrow> py_value list \<Rightarrow> py_exc + py_dict" where
  "assessments_loop meta [] = Inr meta"
| "assessments_loop meta (assessment # rest) =
     (case dict assessment of
        Inl e \<Rightarrow> Inl e
      | Inr d \<Rightarrow> assessments_loop d rest)"

text \<open>
  What the \<^verbatim>\<open>try\<close> block does with the response once it is there: \<open>Inr None\<close> when the
  \<^verbatim>\<open>if\<close> is not taken and control leaves the block without returning.
\<close>

definition interpret_response :: "py_value \<Rightarrow> py_exc + SafetyViolation option" where
  "interpret_response response =
     (case subscript response ''action'' of
        Inl e \<Rightarrow> Inl e
      | Inr action \<Rightarrow>
          if action = PyStr ''GUARDRAIL_INTERVENED'' then
            (case subscript response ''outputs'' of
               Inl e \<Rightarrow> Inl e
             | Inr outputs \<Rightarrow>
            (case py_iter outputs of
               Inl e \<Rightarrow> Inl e
             | Inr os \<Rightarrow>
            (case outputs_loop (PyStr []) os of
               Inl e \<Rightarrow> Inl e
             | Inr message \<Rightarrow>
            (case subscript response ''assessments'' of
               Inl e \<Rightarrow> Inl e
             | Inr assessments \<Rightarrow>
            (case py_iter assessments of
               Inl e \<Rightarrow> Inl e
             | Inr as \<Rightarrow>
            (case assessments_loop [] as of
               Inl e \<Rightarrow> Inl e
             | Inr meta \<Rightarrow>
                 Inr (Some \<lparr>user_message = message, violation_level = ERROR,
                            metadata = meta\<rparr>)))))))
          else Inr None)"

text \<open>The keyword arguments of the call, from \<^verbatim>\<open>params\<close> and the blocks.\<close>

definition apply_guardrail_kwargs :: "py_dict \<Rightarrow> py_value list \<Rightarrow> apply_guardrail_args" where
  "apply_guardrail_kwargs params content_messages =
     \<lparr>guardrailIdentifier = py_get params ''guardrailIdentifier'',
      guardrailVersion = py_get params ''guardrailVersion'',
      source = ''OUTPUT'',
      content = content_messages\<rparr>"

text \<open>
  The \<^verbatim>\<open>try\<close> block. \<^verbatim>\<open>params\<close> defaults to \<^verbatim>\<open>None\<close>, on which
  \<^verbatim>\<open>in\<close> raises a \<^verbatim>\<open>TypeError\<close>; reading \<^verbatim>\<open>self.boto_client\<close> before
  \<^verbatim>\<open>initialize\<close> has set it raises an \<^verbatim>\<open>AttributeError\<close>. The second
  debug line serialises the blocks with \<^verbatim>\<open>json.dumps\<close>, which cannot fail on blocks
  of text. \<^verbatim>\<open>shield_type\<close> is not used.
\<close>

definition run_shield_try ::
  "BedrockSafetyAdapter \<Rightarrow> string \<Rightarrow> Message list \<Rightarrow> py_dict option
     \<Rightarrow> (py_exc + SafetyViolation option) \<times> event list"
where
  "run_shield_try self shield_type messages params =
     (case params of
        None \<Rightarrow> (Inl TypeError, [Log_debug])
      | Some p \<Rightarrow>
          if \<not> py_in ''guardrailIdentifier'' p then
            (Inl (RuntimeError
               ''Error running request for BedrockGaurdrails:Missing GuardrailID in request''
               None), [Log_debug])
          else if \<not> py_in ''guardrailVersion'' p then
            (Inl (RuntimeError
               ''Error running request for BedrockGaurdrails:Missing guardrailVersion in request''
               None), [Log_debug])
          else
            let content_messages = content_messages_loop [] messages in
            (case boto_client self of
               None \<Rightarrow> (Inl (AttributeError ''boto_client''), [Log_debug, Log_debug])
             | Some c \<Rightarrow>
                 let args = apply_guardrail_kwargs p content_messages in
                 (case c args of
                    Inl e \<Rightarrow> (Inl e, [Log_debug, Log_debug, Apply_guardrail_call args])
                  | Inr response \<Rightarrow>
                      (interpret_response response,
                       [Log_debug, Log_debug, Apply_guardrail_call args, Log_debug]))))"

text \<open>
  The whole method: \<^verbatim>\<open>except Exception\<close> logs the error it catches, and the
  \<^verbatim>\<open>return None\<close> after the \<^verbatim>\<open>try\<close> statement is reached from the handler
  and from a block that did not return. An exception the clause does not catch leaves the
  method, with nothing logged. The result is what the caller sees: \<open>Inl\<close> is an exception
  raised to it.
\<close>

definition run_shield ::
  "BedrockSafetyAdapter \<Rightarrow> string \<Rightarrow> Message list \<Rightarrow> py_dict option
     \<Rightarrow> (py_exc + SafetyViolation option) \<times> event list"
where
  "run_shield self shield_type messages params =
     (case run_shield_try self shield_type messages params of
        (Inl e, events) \<Rightarrow>
          if is_Exception e then (Inr None, events @ [Log_error e]) else (Inl e, events)
      | (Inr (Some violation), events) \<Rightarrow> (Inr (Some violation), events)
      | (Inr None, events) \<Rightarrow> (Inr None, events))"

subsection \<open>Concrete inputs\<close>

text \<open>
  Parameters, messages, clients and boto3 behaviours on which the theorems below are run: a
  client that intervenes with two outputs and two assessments, one that intervenes with none,
  one with an output and no assessment, one with an assessment and no output, one that lets the
  content pass, one whose call fails, one whose call is interrupted; a boto3 whose session
  creation fails, one whose session creation is interrupted and one whose client creation
  fails.
\<close>

definition example_params :: py_dict where
  "example_params =
     [(KStr ''guardrailIdentifier'', PyStr ''gr-1''), (KStr ''guardrailVersion'', PyStr ''1'')]"

definition empty_identifier_params :: py_dict where
  "empty_identifier_params =
     [(KStr ''guardrailIdentifier'', PyStr []), (KStr ''guardrailVersion'', PyStr ''1'')]"

definition example_messages :: "Message list" where
  "example_messages =
     [\<lparr>role = user, content = ''hello''\<rparr>, \<lparr>role = assistant, content = ''world''\<rparr>]"

definition intervening_response :: py_value where
  "intervening_response =
     PyDict [(KStr ''action'', PyStr ''GUARDRAIL_INTERVENED''),
             (KStr ''outputs'',
                PyList [PyDict [(KStr ''text'', PyStr ''a'')], PyDict [(KStr ''text'', PyStr ''b'')]]),
             (KStr ''assessments'',
                PyList [PyDict [(KStr ''k'', PyInt 1)], PyDict [(KStr ''k'', PyInt 2)]])]"

definition intervening_client :: guardrail_client where
  "intervening_client args = Inr intervening_response"

definition bare_intervening_client :: guardrail_client where
  "bare_intervening_client args =
     Inr (PyDict [(KStr ''action'', PyStr ''GUARDRAIL_INTERVENED''),
                  (KStr ''outputs'', PyList []), (KStr ''assessments'', PyList [])])"

definition allowing_client :: guardrail_client where
  "allowing_client args =
     Inr (PyDict [(KStr ''action'', PyStr ''NONE''),
                  (KStr ''outputs'', PyList [PyDict [(KStr ''text'', PyStr ''a'')]])])"



definition output_only_response :: py_value where
  "output_only_response =
     PyDict [(KStr ''action'', PyStr ''GUARDRAIL_INTERVENED''),
             (KStr ''outputs'', PyList [PyDict [(KStr ''text'', PyStr ''blocked'')]]),
             (KStr ''assessments'', PyList [])]"

definition output_only_client :: guardrail_client where
  "output_only_client args = Inr output_only_response"

definition assessment_only_response :: py_value where
  "assessment_only_response =
     PyDict [(KStr ''action'', PyStr ''GUARDRAIL_INTERVENED''),
             (KStr ''outputs'', PyList []),
             (KStr ''assessments'', PyList [PyDict [(KStr ''k'', PyInt 1)]])]"

definition assessment_only_client :: guardrail_client where
  "assessment_only_client args = Inr assessment_only_response"

definition example_adapter :: "guardrail_client \<Rightarrow> BedrockSafetyAdapter" where
  "example_adapter c =
     \<lparr>config = \<lparr>aws_profile = Some ''default''\<rparr>, boto_client_profile = Some ''default'',
      boto_client = Some c\<rparr>"

definition failing_boto3 :: "unit boto3" where
  "failing_boto3 =
     \<lparr>Session = (\<lambda>p. Inl (ClientError ''profile not found'')),
      client = (\<lambda>s n. Inr allowing_client)\<rparr>"

definition interrupted_boto3 :: "unit boto3" where
  "interrupted_boto3 =
     \<lparr>Session = (\<lambda>p. Inl KeyboardInterrupt),
      client = (\<lambda>s n. Inr allowing_client)\<rparr>"

definition clientless_boto3 :: "unit boto3" where
  "clientless_boto3 =
     \<lparr>Session = (\<lambda>p. Inr ()),
      client = (\<lambda>s n. Inl (ClientError ''unknown service''))\<rparr>"

section \<open>Properties of the loops and of the call\<close>

text \<open>The block loop appends one block per message, in order.\<close>

lemma content_messages_loop_map:
  "content_messages_loop acc ms = acc @ map (\<lambda>m. content_block (Message.content m)) ms"
  by (induction ms arbitrary: acc) simp_all

text \<open>
  A loop over entries none of which raises ends with what its last pass assigned, whatever the
  earlier passes assigned and whatever the variable held before.
\<close>

lemma outputs_loop_last:
  assumes "\<forall>x \<in> set os. \<exists>t. subscript x ''text'' = Inr t" and "os \<noteq> []"
    and "subscript (last os) ''text'' = Inr t"
  shows "outputs_loop m os = Inr t"
  using assms
proof (induction os arbitrary: m)
  case Nil
  then show ?case by simp
next
  case (Cons x xs)
  then obtain tx where tx: "subscript x ''text'' = Inr tx" by auto
  show ?case
  proof (cases "xs = []")
    case True
    with Cons.prems tx show ?thesis by simp
  next
    case False
    with Cons tx show ?thesis by simp
  qed
qed

lemma assessments_loop_last:
  assumes "\<forall>x \<in> set as. \<exists>d. dict x = Inr d" and "as \<noteq> []"
    and "dict (last as) = Inr d"
  shows "assessments_loop m as = Inr d"
  using assms
proof (induction as arbitrary: m)
  case Nil
  then show ?case by simp
next
  case (Cons x xs)
  then obtain dx where dx: "dict x = Inr dx" by auto
  show ?case
  proof (cases "xs = []")
    case True
    with Cons.prems dx show ?thesis by simp
  next
    case False
    with Cons dx show ?thesis by simp
  qed
qed

text \<open>
  Conversely, what a loop over a non-empty list ends with is what its last entry gives.
\<close>

lemma outputs_loop_result:
  "outputs_loop m os = Inr r \<Longrightarrow> os \<noteq> [] \<Longrightarrow> subscript (last os) ''text'' = Inr r"
proof (induction os arbitrary: m)
  case Nil
  then show ?case by simp
next
  case (Cons x xs)
  from Cons.prems(1) obtain tx where tx: "subscript x ''text'' = Inr tx"
    and rest: "outputs_loop tx xs = Inr r"
    by (auto split: sum.splits)
  show ?case
  proof (cases "xs = []")
    case True
    with tx rest show ?thesis by simp
  next
    case False
    with Cons.IH [OF rest] show ?thesis by simp
  qed
qed

lemma assessments_loop_result:
  "assessments_loop m as = Inr r \<Longrightarrow> as \<noteq> [] \<Longrightarrow> dict (last as) = Inr r"
proof (induction as arbitrary: m)
  case Nil
  then show ?case by simp
next
  case (Cons x xs)
  from Cons.prems(1) obtain dx where dx: "dict x = Inr dx"
    and rest: "assessments_loop dx xs = Inr r"
    by (auto split: sum.splits)
  show ?case
  proof (cases "xs = []")
    case True
    with dx rest show ?thesis by simp
  next
    case False
    with Cons.IH [OF rest] show ?thesis by simp
  qed
qed

text \<open>A violation holds what the two loops ended with.\<close>

lemma interpret_response_loops:
  assumes "interpret_response response = Inr (Some v)"
    and "subscript response ''outputs'' = Inr (PyList outputs)"
    and "subscript response ''assessments'' = Inr (PyList assessments)"
  shows "outputs_loop (PyStr []) outputs = Inr (user_message v) \<and>
         assessments_loop [] assessments = Inr (metadata v)"
  using assms by (auto simp: interpret_response_def split: sum.splits if_splits)

text \<open>What the caller gets and what has happened, in terms of the \<^verbatim>\<open>try\<close> block.\<close>

lemma run_shield_fst:
  "fst (run_shield self st ms ps) =
     (case fst (run_shield_try self st ms ps) of
        Inl e \<Rightarrow> if is_Exception e then Inr None else Inl e
      | Inr r \<Rightarrow> Inr r)"
  by (simp add: run_shield_def split: prod.splits sum.splits option.splits)

lemma run_shield_snd:
  "snd (run_shield self st ms ps) =
     (case fst (run_shield_try self st ms ps) of
        Inl e \<Rightarrow>
          if is_Exception e then snd (run_shield_try self st ms ps) @ [Log_error e]
          else snd (run_shield_try self st ms ps)
      | Inr r \<Rightarrow> snd (run_shield_try self st ms ps))"
  by (simp add: run_shield_def split: prod.splits sum.splits option.splits)

text \<open>
  Reading the response raises errors derived from \<^verbatim>\<open>Exception\<close> only, and so do
  the checks of \<^verbatim>\<open>params\<close>: an exception of the block that is not one comes from
  the call of the client.
\<close>

lemma subscript_Exception: "subscript v k = Inl e \<Longrightarrow> is_Exception e"
  by (cases v) (auto split: option.splits)

lemma py_iter_Exception: "py_iter v = Inl e \<Longrightarrow> is_Exception e"
  by (cases v) auto

lemma py_hash_Exception: "py_hash v = Inl e \<Longrightarrow> is_Exception e"
  by (cases v) auto

lemma py_pair_Exception: "py_pair v = Inl e \<Longrightarrow> is_Exception e"
  by (induction v rule: py_pair.induct) (auto split: sum.splits dest: py_hash_Exception)

lemma dict_update_seq_Exception: "dict_update_seq d xs = Inl e \<Longrightarrow> is_Exception e"
  by (induction d xs rule: dict_update_seq.induct)
    (auto split: sum.splits prod.splits dest: py_pair_Exception)

lemma dict_Exception: "dict v = Inl e \<Longrightarrow> is_Exception e"
  by (cases v) (auto dest: dict_update_seq_Exception)

lemma outputs_loop_Exception: "outputs_loop m os = Inl e \<Longrightarrow> is_Exception e"
  by (induction m os rule: outputs_loop.induct) (auto split: sum.splits dest: subscript_Exception)

lemma assessments_loop_Exception: "assessments_loop m as = Inl e \<Longrightarrow> is_Exception e"
  by (induction m as rule: assessments_loop.induct) (auto split: sum.splits dest: dict_Exception)

lemma interpret_response_Exception:
  assumes "interpret_response response = Inl e"
  shows "is_Exception e"
proof (cases "subscript response ''action''")
  case (Inl a)
  with assms show ?thesis
    by (auto simp: interpret_response_def dest: subscript_Exception)
next
  case (Inr action)
  with assms show ?thesis
    by (auto simp: interpret_response_def split: if_splits sum.splits
        dest: subscript_Exception py_iter_Exception outputs_loop_Exception
          assessments_loop_Exception)
qed


text \<open>With a client and both keys, the block reaches the call.\<close>

lemma run_shield_try_called:
  assumes "boto_client self = Some c"
    and "py_in ''guardrailIdentifier'' p" and "py_in ''guardrailVersion'' p"
  shows "run_shield_try self st ms (Some p) =
     (let args = apply_guardrail_kwargs p (map (\<lambda>m. content_block (Message.content m)) ms) in
      case c args of
        Inl e \<Rightarrow> (Inl e, [Log_debug, Log_debug, Apply_guardrail_call args])
      | Inr response \<Rightarrow>
          (interpret_response response,
           [Log_debug, Log_debug, Apply_guardrail_call args, Log_debug]))"
  using assms by (simp add: run_shield_try_def content_messages_loop_map Let_def)

lemma run_shield_try_response:
  assumes "boto_client self = Some c"
    and "py_in ''guardrailIdentifier'' p" and "py_in ''guardrailVersion'' p"
    and "c (apply_guardrail_kwargs p (map (\<lambda>m. content_block (Message.content m)) ms)) =
           Inr response"
  shows "fst (run_shield_try self st ms (Some p)) = interpret_response response"
  using assms by (simp add: run_shield_try_called Let_def)

text \<open>Without one of the keys, the block raises after its first debug line.\<close>

lemma run_shield_try_missing:
  "\<not> py_in ''guardrailIdentifier'' p \<Longrightarrow>
     run_shield_try self st ms (Some p) =
       (Inl (RuntimeError
          ''Error running request for BedrockGaurdrails:Missing GuardrailID in request'' None),
        [Log_debug])"
  "py_in ''guardrailIdentifier'' p \<Longrightarrow> \<not> py_in ''guardrailVersion'' p \<Longrightarrow>
     run_shield_try self st ms (Some p) =
       (Inl (RuntimeError
          ''Error running request for BedrockGaurdrails:Missing guardrailVersion in request''
          None),
        [Log_debug])"
  by (simp_all add: run_shield_try_def)

lemma interpret_response_level:
  "interpret_response response = Inr (Some v) \<Longrightarrow> violation_level v = ERROR"
  by (auto simp: interpret_response_def split: sum.splits if_splits)

lemma run_shield_try_level:
  "fst (run_shield_try self st ms ps) = Inr (Some v) \<Longrightarrow> violation_level v = ERROR"
  by (auto simp: run_shield_try_def Let_def interpret_response_level
      split: option.splits if_splits sum.splits)

lemma remote_calls_append: "remote_calls (xs @ ys) = remote_calls xs @ remote_calls ys"
  by (induction xs rule: remote_calls.induct) simp_all

section \<open>The claims\<close>




text \<open>
  C2. On an adapter that holds a client, for every message list and every \<^verbatim>\<open>params\<close>
  with both keys, \<^verbatim>\<open>run_shield\<close> calls \<^verbatim>\<open>apply_guardrail\<close> exactly once:
  with the two values of \<^verbatim>\<open>params\<close>, the source \<^verbatim>\<open>"OUTPUT"\<close>, and one content
  block per message, in the order of the messages, each made of the content of its message
  alone.
\<close>

theorem one_remote_call:
  assumes "boto_client self = Some c"
    and "py_in ''guardrailIdentifier'' p" and "py_in ''guardrailVersion'' p"
  shows "remote_calls (snd (run_shield self st messages (Some p))) =
           [\<lparr>guardrailIdentifier = py_get p ''guardrailIdentifier'',
             guardrailVersion = py_get p ''guardrailVersion'',
             source = ''OUTPUT'',
             content = map content_block (map Message.content messages)\<rparr>]"
proof -
  let ?args = "apply_guardrail_kwargs p (map (\<lambda>m. content_block (Message.content m)) messages)"
  have "remote_calls (snd (run_shield self st messages (Some p))) = [?args]"
    by (cases "c ?args")
      (simp_all add: run_shield_snd run_shield_try_called [OF assms] Let_def
        remote_calls_append split: sum.splits)
  then show ?thesis
    by (simp add: apply_guardrail_kwargs_def comp_def)
qed

text \<open>Two messages of different roles give two blocks, of their contents, in order.\<close>

theorem one_remote_call_witness:
  "remote_calls
     (snd (run_shield (example_adapter intervening_client) ''shield'' example_messages
        (Some example_params))) =
     [\<lparr>guardrailIdentifier = PyStr ''gr-1'', guardrailVersion = PyStr ''1'',
       source = ''OUTPUT'',
       content = [PyDict [(KStr ''text'', PyDict [(KStr ''text'', PyStr ''hello'')])],
                  PyDict [(KStr ''text'', PyDict [(KStr ''text'', PyStr ''world'')])]]\<rparr>]"
  using one_remote_call
    [of "example_adapter intervening_client" intervening_client example_params "''shield''"
      example_messages]
  by (simp add: example_adapter_def example_params_def example_messages_def py_in_def
      py_get_def content_block_def)

text \<open>
  C3. Take a response of the call with the action \<^verbatim>\<open>"GUARDRAIL_INTERVENED"\<close>, a
  list of outputs and a list of assessments. Every violation that \<^verbatim>\<open>run_shield\<close>
  returns on it has as message the text of the last output when there is an output (the empty
  string when there is none), as metadata the last assessment, converted to a dictionary, when
  there is an assessment (the empty dictionary when there is none), each of the two whatever
  the other list holds, and the level \<open>ERROR\<close>. And one is returned, with exactly these,
  when every output has a text, the last one a string, and every assessment converts to a
  dictionary, the last one being one: the earlier entries may hold anything else.
\<close>

theorem last_wins:
  assumes "boto_client self = Some c"
    and "py_in ''guardrailIdentifier'' p" and "py_in ''guardrailVersion'' p"
    and "c (apply_guardrail_kwargs p (map (\<lambda>m. content_block (Message.content m)) messages)) =
           Inr response"
    and "subscript response ''action'' = Inr (PyStr ''GUARDRAIL_INTERVENED'')"
    and "subscript response ''outputs'' = Inr (PyList outputs)"
    and "subscript response ''assessments'' = Inr (PyList assessments)"
  shows "(\<forall>v. fst (run_shield self st messages (Some p)) = Inr (Some v) \<longrightarrow>
            (outputs \<noteq> [] \<longrightarrow> subscript (last outputs) ''text'' = Inr (user_message v)) \<and>
            (outputs = [] \<longrightarrow> user_message v = PyStr []) \<and>
            (assessments \<noteq> [] \<longrightarrow> dict (last assessments) = Inr (metadata v)) \<and>
            (assessments = [] \<longrightarrow> metadata v = []) \<and>
            violation_level v = ERROR) \<and>
         ((\<forall>x \<in> set outputs. \<exists>t. subscript x ''text'' = Inr t) \<and>
          (\<forall>x \<in> set assessments. \<exists>d. dict x = Inr d) \<and>
          (outputs \<noteq> [] \<longrightarrow> subscript (last outputs) ''text'' = Inr (PyStr t)) \<and>
          (assessments \<noteq> [] \<longrightarrow> last assessments = PyDict d) \<longrightarrow>
            fst (run_shield self st messages (Some p)) =
              Inr (Some \<lparr>user_message = (if outputs = [] then PyStr [] else PyStr t),
                         violation_level = ERROR,
                         metadata = (if assessments = [] then [] else d)\<rparr>))"
proof (intro conjI allI impI)
  fix v
  assume "fst (run_shield self st messages (Some p)) = Inr (Some v)"
  then have "fst (run_shield_try self st messages (Some p)) = Inr (Some v)"
    by (simp add: run_shield_fst split: sum.splits if_splits)
  with assms(1-4) have i: "interpret_response response = Inr (Some v)"
    by (simp add: run_shield_try_response)
  from interpret_response_loops [OF i assms(6,7)]
  have o: "outputs_loop (PyStr []) outputs = Inr (user_message v)"
    and a: "assessments_loop [] assessments = Inr (metadata v)"
    by simp_all
  {
    assume "outputs \<noteq> []"
    with o show "subscript (last outputs) ''text'' = Inr (user_message v)"
      by (rule outputs_loop_result)
  }
  {
    assume "outputs = []"
    with o show "user_message v = PyStr []" by simp
  }
  {
    assume "assessments \<noteq> []"
    with a show "dict (last assessments) = Inr (metadata v)"
      by (rule assessments_loop_result)
  }
  {
    assume "assessments = []"
    with a show "metadata v = []" by simp
  }
  from i show "violation_level v = ERROR"
    by (rule interpret_response_level)
next
  assume w: "(\<forall>x \<in> set outputs. \<exists>t. subscript x ''text'' = Inr t) \<and>
          (\<forall>x \<in> set assessments. \<exists>d. dict x = Inr d) \<and>
          (outputs \<noteq> [] \<longrightarrow> subscript (last outputs) ''text'' = Inr (PyStr t)) \<and>
          (assessments \<noteq> [] \<longrightarrow> last assessments = PyDict d)"
  have o: "outputs_loop (PyStr []) outputs =
      Inr (if outputs = [] then PyStr [] else PyStr t)"
  proof (cases "outputs = []")
    case True
    then show ?thesis by simp
  next
    case False
    with w have "outputs_loop (PyStr []) outputs = Inr (PyStr t)"
      by (simp add: outputs_loop_last)
    with False show ?thesis by simp
  qed
  have a: "assessments_loop [] assessments = Inr (if assessments = [] then [] else d)"
  proof (cases "assessments = []")
    case True
    then show ?thesis by simp
  next
    case False
    with w have "dict (last assessments) = Inr d"
      by simp
    with w False have "assessments_loop [] assessments = Inr d"
      by (simp add: assessments_loop_last)
    with False show ?thesis by simp
  qed
  have "interpret_response response =
      Inr (Some \<lparr>user_message = (if outputs = [] then PyStr [] else PyStr t),
                 violation_level = ERROR,
                 metadata = (if assessments = [] then [] else d)\<rparr>)"
    using assms(5,6,7) o a by (simp add: interpret_response_def)
  then show "fst (run_shield self st messages (Some p)) =
      Inr (Some \<lparr>user_message = (if outputs = [] then PyStr [] else PyStr t),
                 violation_level = ERROR,
                 metadata = (if assessments = [] then [] else d)\<rparr>)"
    using assms(1-4) by (simp add: run_shield_fst run_shield_try_response)
qed

text \<open>
  Outputs \<^verbatim>\<open>[{"text": "a"}, {"text": "b"}]\<close> and assessments
  \<^verbatim>\<open>[{"k": 1}, {"k": 2}]\<close> give the message \<^verbatim>\<open>"b"\<close> and the metadata
  \<^verbatim>\<open>{"k": 2}\<close>. One output and no assessment give the text of the output and the empty
  dictionary; one assessment and no output give the empty string and the assessment.
\<close>

theorem last_wins_witness:
  "fst (run_shield (example_adapter intervening_client) ''shield'' example_messages
     (Some example_params)) =
   Inr (Some \<lparr>user_message = PyStr ''b'', violation_level = ERROR,
              metadata = [(KStr ''k'', PyInt 2)]\<rparr>) \<and>
   fst (run_shield (example_adapter output_only_client) ''shield'' example_messages
     (Some example_params)) =
   Inr (Some \<lparr>user_message = PyStr ''blocked'', violation_level = ERROR, metadata = []\<rparr>) \<and>
   fst (run_shield (example_adapter assessment_only_client) ''shield'' example_messages
     (Some example_params)) =
   Inr (Some \<lparr>user_message = PyStr [], violation_level = ERROR,
              metadata = [(KStr ''k'', PyInt 1)]\<rparr>)"
proof -
  let ?outputs = "[PyDict [(KStr ''text'', PyStr ''a'')], PyDict [(KStr ''text'', PyStr ''b'')]]"
  let ?assessments = "[PyDict [(KStr ''k'', PyInt 1)], PyDict [(KStr ''k'', PyInt 2)]]"
  let ?output = "[PyDict [(KStr ''text'', PyStr ''blocked'')]]"
  let ?assessment = "[PyDict [(KStr ''k'', PyInt 1)]]"
  have k: "py_in ''guardrailIdentifier'' example_params" "py_in ''guardrailVersion'' example_params"
    by (simp_all add: py_in_def example_params_def)
  have c1: "boto_client (example_adapter intervening_client) = Some intervening_client"
    and c2: "boto_client (example_adapter output_only_client) = Some output_only_client"
    and c3: "boto_client (example_adapter assessment_only_client) = Some assessment_only_client"
    by (simp_all add: example_adapter_def)
  have r1: "intervening_client
      (apply_guardrail_kwargs example_params
         (map (\<lambda>m. content_block (Message.content m)) example_messages)) =
      Inr intervening_response"
    by (simp add: intervening_client_def)
  have r2: "output_only_client
      (apply_guardrail_kwargs example_params
         (map (\<lambda>m. content_block (Message.content m)) example_messages)) =
      Inr output_only_response"
    by (simp add: output_only_client_def)
  have r3: "assessment_only_client
      (apply_guardrail_kwargs example_params
         (map (\<lambda>m. content_block (Message.content m)) example_messages)) =
      Inr assessment_only_response"
    by (simp add: assessment_only_client_def)
  have a1: "subscript intervening_response ''action'' = Inr (PyStr ''GUARDRAIL_INTERVENED'')"
    and o1: "subscript intervening_response ''outputs'' = Inr (PyList ?outputs)"
    and s1: "subscript intervening_response ''assessments'' = Inr (PyList ?assessments)"
    by (simp_all add: intervening_response_def)
  have a2: "subscript output_only_response ''action'' = Inr (PyStr ''GUARDRAIL_INTERVENED'')"
    and o2: "subscript output_only_response ''outputs'' = Inr (PyList ?output)"
    and s2: "subscript output_only_response ''assessments'' = Inr (PyList [])"
    by (simp_all add: output_only_response_def)
  have a3: "subscript assessment_only_response ''action'' = Inr (PyStr ''GUARDRAIL_INTERVENED'')"
    and o3: "subscript assessment_only_response ''outputs'' = Inr (PyList [])"
    and s3: "subscript assessment_only_response ''assessments'' = Inr (PyList ?assessment)"
    by (simp_all add: assessment_only_response_def)
  have w1: "(\<forall>x \<in> set ?outputs. \<exists>t. subscript x ''text'' = Inr t) \<and>
      (\<forall>x \<in> set ?assessments. \<exists>d. dict x = Inr d) \<and>
      (?outputs \<noteq> [] \<longrightarrow> subscript (last ?outputs) ''text'' = Inr (PyStr ''b'')) \<and>
      (?assessments \<noteq> [] \<longrightarrow> last ?assessments = PyDict [(KStr ''k'', PyInt 2)])"
    by simp
  have w2: "(\<forall>x \<in> set ?output. \<exists>t. subscript x ''text'' = Inr t) \<and>
      (\<forall>x \<in> set ([] :: py_value list). \<exists>d. dict x = Inr d) \<and>
      (?output \<noteq> [] \<longrightarrow> subscript (last ?output) ''text'' = Inr (PyStr ''blocked'')) \<and>
      (([] :: py_value list) \<noteq> [] \<longrightarrow> last ([] :: py_value list) = PyDict [])"
    by simp
  have w3: "(\<forall>x \<in> set ([] :: py_value list). \<exists>t. subscript x ''text'' = Inr t) \<and>
      (\<forall>x \<in> set ?assessment. \<exists>d. dict x = Inr d) \<and>
      (([] :: py_value list) \<noteq> [] \<longrightarrow>
         subscript (last ([] :: py_value list)) ''text'' = Inr (PyStr [])) \<and>
      (?assessment \<noteq> [] \<longrightarrow> last ?assessment = PyDict [(KStr ''k'', PyInt 1)])"
    by simp
  from last_wins [OF c1 k r1 a1 o1 s1, where st = "''shield''" and t = "''b''"
      and d = "[(KStr ''k'', PyInt 2)]", THEN conjunct2] w1
  have 1: "fst (run_shield (example_adapter intervening_client) ''shield'' example_messages
      (Some example_params)) =
    Inr (Some \<lparr>user_message = (if ?outputs = [] then PyStr [] else PyStr ''b''),
               violation_level = ERROR,
               metadata = (if ?assessments = [] then [] else [(KStr ''k'', PyInt 2)])\<rparr>)"
    by (rule mp)
  from last_wins [OF c2 k r2 a2 o2 s2, where st = "''shield''" and t = "''blocked''"
      and d = "[]", THEN conjunct2] w2
  have 2: "fst (run_shield (example_adapter output_only_client) ''shield'' example_messages
      (Some example_params)) =
    Inr (Some \<lparr>user_message = (if ?output = [] then PyStr [] else PyStr ''blocked''),
               violation_level = ERROR,
               metadata = (if ([] :: py_value list) = [] then [] else [])\<rparr>)"
    by (rule mp)
  from last_wins [OF c3 k r3 a3 o3 s3, where st = "''shield''" and t = "[]"
      and d = "[(KStr ''k'', PyInt 1)]", THEN conjunct2] w3
  have 3: "fst (run_shield (example_adapter assessment_only_client) ''shield'' example_messages
      (Some example_params)) =
    Inr (Some \<lparr>user_message = (if ([] :: py_value list) = [] then PyStr [] else PyStr []),
               violation_level = ERROR,
               metadata = (if ?assessment = [] then [] else [(KStr ''k'', PyInt 1)])\<rparr>)"
    by (rule mp)
  from 1 2 3 show ?thesis by simp
qed

text \<open>
  C4. For every response of the call whose \<^verbatim>\<open>action\<close> is not
  \<^verbatim>\<open>"GUARDRAIL_INTERVENED"\<close> (another value, or no such field at all),
  \<^verbatim>\<open>run_shield\<close> returns \<^verbatim>\<open>None\<close>, whatever else the response holds.
\<close>

theorem not_intervened_no_violation:
  assumes "boto_client self = Some c"
    and "py_in ''guardrailIdentifier'' p" and "py_in ''guardrailVersion'' p"
    and "c (apply_guardrail_kwargs p (map (\<lambda>m. content_block (Message.content m)) messages)) =
           Inr response"
    and "subscript response ''action'' \<noteq> Inr (PyStr ''GUARDRAIL_INTERVENED'')"
  shows "fst (run_shield self st messages (Some p)) = Inr None"
proof -
  have "interpret_response response = Inr None \<or> (\<exists>e. interpret_response response = Inl e)"
    using assms(5) by (cases "subscript response ''action''") (simp_all add: interpret_response_def)
  then show ?thesis
    using assms(1-4)
    by (auto simp: run_shield_fst run_shield_try_response dest: interpret_response_Exception)
qed

text \<open>A response with another action and an output: no violation.\<close>

theorem not_intervened_no_violation_witness:
  "fst (run_shield (example_adapter allowing_client) ''shield'' example_messages
     (Some example_params)) = Inr None"
  using not_intervened_no_violation
    [of "example_adapter allowing_client" allowing_client example_params example_messages
      "PyDict [(KStr ''action'', PyStr ''NONE''),
               (KStr ''outputs'', PyList [PyDict [(KStr ''text'', PyStr ''a'')]])]" "''shield''"]
  by (simp add: example_adapter_def example_params_def py_in_def allowing_client_def)

text \<open>
  C5, as the spec states it: a \<^verbatim>\<open>params\<close> whose \<^verbatim>\<open>guardrailIdentifier\<close> is the
  empty string fails the validation before any call of the client. It does not: the key is
  there, so the block raises nothing and calls the client with the empty identifier.
\<close>

theorem empty_identifier_counterexample:
  "py_in ''guardrailIdentifier'' empty_identifier_params \<and>
   py_get empty_identifier_params ''guardrailIdentifier'' = PyStr [] \<and>
   run_shield_try (example_adapter allowing_client) ''shield'' example_messages
     (Some empty_identifier_params) =
     (Inr None,
      [Log_debug, Log_debug,
       Apply_guardrail_call
         \<lparr>guardrailIdentifier = PyStr [], guardrailVersion = PyStr ''1'', source = ''OUTPUT'',
          content = [PyDict [(KStr ''text'', PyDict [(KStr ''text'', PyStr ''hello'')])],
                     PyDict [(KStr ''text'', PyDict [(KStr ''text'', PyStr ''world'')])]]\<rparr>,
       Log_debug]) \<and>
   logged_errors (snd (run_shield (example_adapter allowing_client) ''shield'' example_messages
     (Some empty_identifier_params))) = [] \<and>
   remote_calls (snd (run_shield (example_adapter allowing_client) ''shield'' example_messages
     (Some empty_identifier_params))) =
     [\<lparr>guardrailIdentifier = PyStr [], guardrailVersion = PyStr ''1'', source = ''OUTPUT'',
       content = [PyDict [(KStr ''text'', PyDict [(KStr ''text'', PyStr ''hello'')])],
                  PyDict [(KStr ''text'', PyDict [(KStr ''text'', PyStr ''world'')])]]\<rparr>]"
  by (simp add: run_shield_def run_shield_try_def example_adapter_def empty_identifier_params_def
      example_messages_def allowing_client_def py_in_def py_get_def apply_guardrail_kwargs_def
      content_block_def interpret_response_def Let_def)

text \<open>
  C5, amended. The validation looks at the presence of the two keys only. For every
  \<^verbatim>\<open>params\<close> that has both keys, whatever their values, the validation passes and an
  adapter that holds a client calls it once, with those values. The validation fails, with a
  \<^verbatim>\<open>RuntimeError\<close> raised before any call of the client, when
  \<^verbatim>\<open>guardrailIdentifier\<close> is absent, and when \<^verbatim>\<open>guardrailVersion\<close> is.
\<close>

theorem validation_checks_presence_only:
  "(py_in ''guardrailIdentifier'' p \<and> py_in ''guardrailVersion'' p \<and> boto_client self = Some c
      \<longrightarrow> remote_calls (snd (run_shield_try self st messages (Some p))) =
            [\<lparr>guardrailIdentifier = py_get p ''guardrailIdentifier'',
              guardrailVersion = py_get p ''guardrailVersion'',
              source = ''OUTPUT'',
              content = map content_block (map Message.content messages)\<rparr>]) \<and>
   (\<not> py_in ''guardrailIdentifier'' p
      \<longrightarrow> run_shield_try self st messages (Some p) =
            (Inl (RuntimeError
               ''Error running request for BedrockGaurdrails:Missing GuardrailID in request''
               None), [Log_debug])) \<and>
   (py_in ''guardrailIdentifier'' p \<and> \<not> py_in ''guardrailVersion'' p
      \<longrightarrow> run_shield_try self st messages (Some p) =
            (Inl (RuntimeError
               ''Error running request for BedrockGaurdrails:Missing guardrailVersion in request''
               None), [Log_debug]))"
proof (intro conjI impI)
  assume h: "py_in ''guardrailIdentifier'' p \<and> py_in ''guardrailVersion'' p \<and>
    boto_client self = Some c"
  let ?args = "apply_guardrail_kwargs p (map (\<lambda>m. content_block (Message.content m)) messages)"
  from h have "remote_calls (snd (run_shield_try self st messages (Some p))) = [?args]"
    by (cases "c ?args") (simp_all add: run_shield_try_called [where c = c] Let_def)
  then show "remote_calls (snd (run_shield_try self st messages (Some p))) =
            [\<lparr>guardrailIdentifier = py_get p ''guardrailIdentifier'',
              guardrailVersion = py_get p ''guardrailVersion'',
              source = ''OUTPUT'',
              content = map content_block (map Message.content messages)\<rparr>]"
    by (simp add: apply_guardrail_kwargs_def comp_def)
qed (simp_all add: run_shield_try_missing)

text \<open>
  With an empty identifier the client is called; with no key, and with the identifier alone,
  the block raises.
\<close>

theorem validation_checks_presence_only_witness:
  "remote_calls
     (snd (run_shield_try (example_adapter allowing_client) ''shield'' example_messages
        (Some empty_identifier_params))) =
     [\<lparr>guardrailIdentifier = PyStr [], guardrailVersion = PyStr ''1'', source = ''OUTPUT'',
       content = [PyDict [(KStr ''text'', PyDict [(KStr ''text'', PyStr ''hello'')])],
                  PyDict [(KStr ''text'', PyDict [(KStr ''text'', PyStr ''world'')])]]\<rparr>] \<and>
   run_shield_try (example_adapter allowing_client) ''shield'' example_messages (Some []) =
     (Inl (RuntimeError
        ''Error running request for BedrockGaurdrails:Missing GuardrailID in request'' None),
      [Log_debug]) \<and>
   run_shield_try (example_adapter allowing_client) ''shield'' example_messages
     (Some [(KStr ''guardrailIdentifier'', PyStr [])]) =
     (Inl (RuntimeError
        ''Error running request for BedrockGaurdrails:Missing guardrailVersion in request''
        None),
      [Log_debug])"
  using
    validation_checks_presence_only
      [of empty_identifier_params "example_adapter allowing_client" allowing_client "''shield''"
        example_messages]
    validation_checks_presence_only
      [of "[]" "example_adapter allowing_client" allowing_client "''shield''" example_messages]
    validation_checks_presence_only
      [of "[(KStr ''guardrailIdentifier'', PyStr [])]" "example_adapter allowing_client"
        allowing_client "''shield''" example_messages]
  by (simp add: example_adapter_def empty_identifier_params_def example_messages_def py_in_def
      py_get_def content_block_def)

text \<open>
  C6. For every \<^verbatim>\<open>params\<close> dictionary that lacks \<^verbatim>\<open>guardrailIdentifier\<close> or
  \<^verbatim>\<open>guardrailVersion\<close>, \<^verbatim>\<open>run_shield\<close> returns \<^verbatim>\<open>None\<close> to its caller
  and raises nothing, the client is not called, and one error, a \<^verbatim>\<open>RuntimeError\<close>, is
  logged.
\<close>

theorem missing_key_no_violation:
  assumes "\<not> py_in ''guardrailIdentifier'' p \<or> \<not> py_in ''guardrailVersion'' p"
  shows "fst (run_shield self st messages (Some p)) = Inr None \<and>
         remote_calls (snd (run_shield self st messages (Some p))) = [] \<and>
         (\<exists>m. logged_errors (snd (run_shield self st messages (Some p))) =
            [RuntimeError m None])"
proof (cases "py_in ''guardrailIdentifier'' p")
  case False
  then show ?thesis
    by (simp add: run_shield_fst run_shield_snd run_shield_try_missing(1))
next
  case True
  with assms have "\<not> py_in ''guardrailVersion'' p" by simp
  with True show ?thesis
    by (simp add: run_shield_fst run_shield_snd run_shield_try_missing(2))
qed

text \<open>A \<^verbatim>\<open>params\<close> with the identifier and no version, on an adapter with a client.\<close>

theorem missing_key_no_violation_witness:
  "run_shield (example_adapter intervening_client) ''shield'' example_messages
     (Some [(KStr ''guardrailIdentifier'', PyStr ''gr-1'')]) =
   (Inr None,
    [Log_debug,
     Log_error (RuntimeError
       ''Error running request for BedrockGaurdrails:Missing guardrailVersion in request''
       None)]) \<and>
   fst (run_shield (example_adapter intervening_client) ''shield'' example_messages
     (Some [(KStr ''guardrailIdentifier'', PyStr ''gr-1'')])) = Inr None \<and>
   remote_calls (snd (run_shield (example_adapter intervening_client) ''shield''
     example_messages (Some [(KStr ''guardrailIdentifier'', PyStr ''gr-1'')]))) = []"
proof -
  have h: "\<not> py_in ''guardrailIdentifier'' [(KStr ''guardrailIdentifier'', PyStr ''gr-1'')] \<or>
      \<not> py_in ''guardrailVersion'' [(KStr ''guardrailIdentifier'', PyStr ''gr-1'')]"
    by (simp add: py_in_def)
  have "run_shield (example_adapter intervening_client) ''shield'' example_messages
     (Some [(KStr ''guardrailIdentifier'', PyStr ''gr-1'')]) =
   (Inr None,
    [Log_debug,
     Log_error (RuntimeError
       ''Error running request for BedrockGaurdrails:Missing guardrailVersion in request''
       None)])"
    by (simp add: run_shield_def run_shield_try_def py_in_def)
  with missing_key_no_violation [OF h] show ?thesis by simp
qed

text \<open>
  C7. Every violation that \<^verbatim>\<open>run_shield\<close> returns, on any adapter, messages,
  \<^verbatim>\<open>params\<close> and response, has the level \<open>ERROR\<close>.
\<close>

theorem violation_level_ERROR:
  assumes "fst (run_shield self st messages params) = Inr (Some v)"
  shows "violation_level v = ERROR"
proof -
  from assms have "fst (run_shield_try self st messages params) = Inr (Some v)"
    by (simp add: run_shield_fst split: sum.splits if_splits)
  then show ?thesis by (rule run_shield_try_level)
qed

text \<open>A run that returns a violation.\<close>

theorem violation_level_ERROR_witness:
  "fst (run_shield (example_adapter intervening_client) ''shield'' example_messages
     (Some example_params)) =
     Inr (Some \<lparr>user_message = PyStr ''b'', violation_level = ERROR,
                metadata = [(KStr ''k'', PyInt 2)]\<rparr>) \<and>
   violation_level \<lparr>user_message = PyStr ''b'', violation_level = ERROR,
                    metadata = [(KStr ''k'', PyInt 2)]\<rparr> = ERROR"
proof -
  have h: "fst (run_shield (example_adapter intervening_client) ''shield'' example_messages
     (Some example_params)) =
     Inr (Some \<lparr>user_message = PyStr ''b'', violation_level = ERROR,
                metadata = [(KStr ''k'', PyInt 2)]\<rparr>)"
    by (simp add: run_shield_def run_shield_try_def example_adapter_def example_params_def
        py_in_def intervening_client_def intervening_response_def interpret_response_def Let_def)
  from h violation_level_ERROR [OF h] show ?thesis by (rule conjI)
qed

text \<open>
  C8. When no profile is configured (none, or an empty one), \<^verbatim>\<open>initialize\<close> raises a
  \<^verbatim>\<open>RuntimeError\<close> to its caller having done nothing else: no session, no client, no
  call, the adapter as it was. When the creation of the session fails, and when the creation of
  the client fails, the failure is raised to the caller too and the adapter holds no client: an
  error derived from \<^verbatim>\<open>Exception\<close> as a \<^verbatim>\<open>RuntimeError\<close> raised from it,
  any other exception as it is.
\<close>

theorem initialize_failures:
  "((aws_profile (config self) = None \<or> aws_profile (config self) = Some [])
      \<longrightarrow> initialize b self =
            (Inl (RuntimeError ''Missing boto_client aws_profile in model info::'' None),
             self, [])) \<and>
   (aws_profile (config self) = Some p \<and> p \<noteq> [] \<and> Session b p = Inl e
      \<longrightarrow> initialize b self =
            (Inl (if is_Exception e
                  then RuntimeError ''Error initializing BedrockSafetyAdapter: '' (Some e)
                  else e),
             self\<lparr>boto_client_profile := Some p\<rparr>, [Print, Session_call p])) \<and>
   (aws_profile (config self) = Some p \<and> p \<noteq> [] \<and> Session b p = Inr s \<and>
      client b s ''bedrock-runtime'' = Inl e
      \<longrightarrow> initialize b self =
            (Inl (if is_Exception e
                  then RuntimeError ''Error initializing BedrockSafetyAdapter: '' (Some e)
                  else e),
             self\<lparr>boto_client_profile := Some p\<rparr>,
             [Print, Session_call p, Client_call ''bedrock-runtime'']))"
  by (auto simp: initialize_def initialize_handler_def Let_def)

text \<open>
  No profile and an empty profile on a fresh adapter; a profile with a boto3 that has no such
  profile; a profile with a boto3 that has no such service; a profile with a boto3 whose
  session creation is interrupted.
\<close>

theorem initialize_failures_witness:
  "initialize failing_boto3 (init \<lparr>aws_profile = None\<rparr>) =
     (Inl (RuntimeError ''Missing boto_client aws_profile in model info::'' None),
      init \<lparr>aws_profile = None\<rparr>, []) \<and>
   initialize failing_boto3 (init \<lparr>aws_profile = Some []\<rparr>) =
     (Inl (RuntimeError ''Missing boto_client aws_profile in model info::'' None),
      init \<lparr>aws_profile = Some []\<rparr>, []) \<and>
   fst (initialize failing_boto3 (init \<lparr>aws_profile = Some ''default''\<rparr>)) =
     Inl (RuntimeError ''Error initializing BedrockSafetyAdapter: ''
       (Some (ClientError ''profile not found''))) \<and>
   fst (initialize clientless_boto3 (init \<lparr>aws_profile = Some ''default''\<rparr>)) =
     Inl (RuntimeError ''Error initializing BedrockSafetyAdapter: ''
       (Some (ClientError ''unknown service''))) \<and>
   fst (initialize interrupted_boto3 (init \<lparr>aws_profile = Some ''default''\<rparr>)) =
     Inl KeyboardInterrupt"
  using
    initialize_failures [of "init \<lparr>aws_profile = None\<rparr>" failing_boto3]
    initialize_failures [of "init \<lparr>aws_profile = Some []\<rparr>" failing_boto3]
    initialize_failures
      [of "init \<lparr>aws_profile = Some ''default''\<rparr>" failing_boto3 "''default''"
        "ClientError ''profile not found''"]
    initialize_failures
      [of "init \<lparr>aws_profile = Some ''default''\<rparr>" clientless_boto3 "''default''"
        "ClientError ''unknown service''" "()"]
    initialize_failures
      [of "init \<lparr>aws_profile = Some ''default''\<rparr>" interrupted_boto3 "''default''"
        KeyboardInterrupt]
  by (simp add: init_def failing_boto3_def clientless_boto3_def interrupted_boto3_def)

text \<open>
  C9. Called without \<^verbatim>\<open>params\<close> (the default, \<^verbatim>\<open>None\<close>), on any adapter and
  messages, \<^verbatim>\<open>run_shield\<close> returns \<^verbatim>\<open>None\<close>: the membership test raises a
  \<^verbatim>\<open>TypeError\<close>, which is logged, and the client is not called.
\<close>

theorem params_None_no_violation:
  "run_shield self st messages None = (Inr None, [Log_debug, Log_error TypeError]) \<and>
   remote_calls (snd (run_shield self st messages None)) = []"
  by (simp add: run_shield_def run_shield_try_def)

text \<open>Without \<^verbatim>\<open>params\<close> on an adapter whose client would intervene.\<close>

theorem params_None_no_violation_witness:
  "run_shield (example_adapter intervening_client) ''shield'' example_messages None =
     (Inr None, [Log_debug, Log_error TypeError])"
  using params_None_no_violation
    [of "example_adapter intervening_client" "''shield''" example_messages]
  by simp

text \<open>
  C10. When the response of the call has the action \<^verbatim>\<open>"GUARDRAIL_INTERVENED"\<close> and
  its lists of outputs and of assessments are both empty, \<^verbatim>\<open>run_shield\<close> returns a
  violation all the same: its message is the empty string, its level \<open>ERROR\<close>, its
  metadata the empty dictionary.
\<close>

theorem intervened_empty_lists:
  assumes "boto_client self = Some c"
    and "py_in ''guardrailIdentifier'' p" and "py_in ''guardrailVersion'' p"
    and "c (apply_guardrail_kwargs p (map (\<lambda>m. content_block (Message.content m)) messages)) =
           Inr response"
    and "subscript response ''action'' = Inr (PyStr ''GUARDRAIL_INTERVENED'')"
    and "subscript response ''outputs'' = Inr (PyList [])"
    and "subscript response ''assessments'' = Inr (PyList [])"
  shows "fst (run_shield self st messages (Some p)) =
           Inr (Some \<lparr>user_message = PyStr [], violation_level = ERROR, metadata = []\<rparr>)"
proof -
  have "interpret_response response =
      Inr (Some \<lparr>user_message = PyStr [], violation_level = ERROR, metadata = []\<rparr>)"
    using assms(5,6,7) by (simp add: interpret_response_def)
  then show ?thesis
    using assms(1-4) by (simp add: run_shield_fst run_shield_try_response)
qed

text \<open>An intervention with no output and no assessment.\<close>

theorem intervened_empty_lists_witness:
  "fst (run_shield (example_adapter bare_intervening_client) ''shield'' example_messages
     (Some example_params)) =
   Inr (Some \<lparr>user_message = PyStr [], violation_level = ERROR, metadata = []\<rparr>)"
  using intervened_empty_lists
    [of "example_adapter bare_intervening_client" bare_intervening_client example_params
      example_messages
      "PyDict [(KStr ''action'', PyStr ''GUARDRAIL_INTERVENED''),
               (KStr ''outputs'', PyList []), (KStr ''assessments'', PyList [])]" "''shield''"]
  by (simp add: example_adapter_def example_params_def py_in_def bare_intervening_client_def)

end
